theory Spec2Isabelle
  imports Complex_Main
begin

section \<open>Data model of \<open>src/app/qr/page.tsx\<close>\<close>

text \<open>
  JavaScript numbers are modelled as exact rationals: every quantity of the layout is a
  small decimal fraction, and the development reasons about the arithmetic the code
  writes down, not about IEEE rounding.
\<close>

type_synonym num = rat

text \<open>The \<open>QRData\<close> interface: the record read back from localStorage.\<close>

record QRData =
  details :: string
  license :: string
  officeName :: string
  officeLogo :: string

text \<open>A JavaScript \<open>Error\<close> with its message.\<close>

datatype error = Error string

text \<open>\<open>await p\<close> followed by the rest of the function: a rejected promise throws.\<close>

definition await :: "error + 'a \<Rightarrow> ('a \<Rightarrow> error + 'b) \<Rightarrow> error + 'b" where
  "await p k = (case p of Inl e \<Rightarrow> Inl e | Inr v \<Rightarrow> k v)"

subsection \<open>Strings\<close>

text \<open>A number inside a template literal: the decimal digits of a non-negative integer.\<close>

fun string_of_nat :: "nat \<Rightarrow> string" where
  "string_of_nat n =
     (if n < 10 then [''0123456789'' ! n]
      else string_of_nat (n div 10) @ [''0123456789'' ! (n mod 10)])"

fun join :: "string \<Rightarrow> string list \<Rightarrow> string" where
  "join sep [] = []"
| "join sep [x] = x"
| "join sep (x # y # ys) = x @ sep @ join sep (y # ys)"

text \<open>\<open>msg_no_data\<close>: the alert shown by both exporters when no record is loaded (UTF-8 bytes of the Arabic literal).\<close>

definition msg_no_data :: string where
  "msg_no_data =
    [CHR 0xD9, CHR 0x84, CHR 0xD8, CHR 0xA7, CHR 0x20, CHR 0xD8, CHR 0xAA, CHR 0xD9,
     CHR 0x88, CHR 0xD8, CHR 0xAC, CHR 0xD8, CHR 0xAF, CHR 0x20, CHR 0xD8, CHR 0xA8,
     CHR 0xD9, CHR 0x8A, CHR 0xD8, CHR 0xA7, CHR 0xD9, CHR 0x86, CHR 0xD8, CHR 0xA7,
     CHR 0xD8, CHR 0xAA, CHR 0x20, CHR 0xD9, CHR 0x85, CHR 0xD8, CHR 0xAA, CHR 0xD8,
     CHR 0xA7, CHR 0xD8, CHR 0xAD, CHR 0xD8, CHR 0xA9, CHR 0x20, CHR 0xD9, CHR 0x84,
     CHR 0xD9, CHR 0x84, CHR 0xD8, CHR 0xAA, CHR 0xD8, CHR 0xAD, CHR 0xD9, CHR 0x85,
     CHR 0xD9, CHR 0x8A, CHR 0xD9, CHR 0x84]"

text \<open>\<open>filename_prefix\<close>: the prefix of both download file names (UTF-8 bytes of the Arabic literal).\<close>

definition filename_prefix :: string where
  "filename_prefix =
    [CHR 0xD8, CHR 0xB1, CHR 0xD9, CHR 0x85, CHR 0xD8, CHR 0xB2, CHR 0x2D, CHR 0x51,
     CHR 0x52, CHR 0x2D, CHR 0xD8, CHR 0xA7, CHR 0xD9, CHR 0x84, CHR 0xD8, CHR 0xB9,
     CHR 0xD9, CHR 0x82, CHR 0xD8, CHR 0xA7, CHR 0xD8, CHR 0xB1, CHR 0xD9, CHR 0x8A,
     CHR 0x2D]"

text \<open>\<open>msg_image_error\<close>: the alert of downloadAsImage's catch block (UTF-8 bytes of the Arabic literal).\<close>

definition msg_image_error :: string where
  "msg_image_error =
    [CHR 0xD8, CHR 0xAD, CHR 0xD8, CHR 0xAF, CHR 0xD8, CHR 0xAB, CHR 0x20, CHR 0xD8,
     CHR 0xAE, CHR 0xD8, CHR 0xB7, CHR 0xD8, CHR 0xA3, CHR 0x20, CHR 0xD8, CHR 0xA3,
     CHR 0xD8, CHR 0xAB, CHR 0xD9, CHR 0x86, CHR 0xD8, CHR 0xA7, CHR 0xD8, CHR 0xA1,
     CHR 0x20, CHR 0xD8, CHR 0xAD, CHR 0xD9, CHR 0x81, CHR 0xD8, CHR 0xB8, CHR 0x20,
     CHR 0xD8, CHR 0xA7, CHR 0xD9, CHR 0x84, CHR 0xD8, CHR 0xB5, CHR 0xD9, CHR 0x88,
     CHR 0xD8, CHR 0xB1, CHR 0xD8, CHR 0xA9]"

text \<open>\<open>msg_pdf_error\<close>: the alert of downloadAsPDF's catch block (UTF-8 bytes of the Arabic literal).\<close>

definition msg_pdf_error :: string where
  "msg_pdf_error =
    [CHR 0xD8, CHR 0xAD, CHR 0xD8, CHR 0xAF, CHR 0xD8, CHR 0xAB, CHR 0x20, CHR 0xD8,
     CHR 0xAE, CHR 0xD8, CHR 0xB7, CHR 0xD8, CHR 0xA3, CHR 0x20, CHR 0xD8, CHR 0xA3,
     CHR 0xD8, CHR 0xAB, CHR 0xD9, CHR 0x86, CHR 0xD8, CHR 0xA7, CHR 0xD8, CHR 0xA1,
     CHR 0x20, CHR 0xD8, CHR 0xAD, CHR 0xD9, CHR 0x81, CHR 0xD8, CHR 0xB8, CHR 0x20,
     CHR 0x50, CHR 0x44, CHR 0x46]"

text \<open>\<open>label_office\<close>: the caption drawn above the office name (UTF-8 bytes of the Arabic literal).\<close>

definition label_office :: string where
  "label_office =
    [CHR 0xD8, CHR 0xA7, CHR 0xD9, CHR 0x84, CHR 0xD9, CHR 0x85, CHR 0xD9, CHR 0x83,
     CHR 0xD8, CHR 0xAA, CHR 0xD8, CHR 0xA8, CHR 0x20, CHR 0xD8, CHR 0xA7, CHR 0xD9,
     CHR 0x84, CHR 0xD9, CHR 0x88, CHR 0xD8, CHR 0xB3, CHR 0xD9, CHR 0x8A, CHR 0xD8,
     CHR 0xB7]"

text \<open>\<open>caption_details\<close>: the caption under the details QR (UTF-8 bytes of the Arabic literal).\<close>

definition caption_details :: string where
  "caption_details =
    [CHR 0xD8, CHR 0xAA, CHR 0xD9, CHR 0x81, CHR 0xD8, CHR 0xA7, CHR 0xD8, CHR 0xB5,
     CHR 0xD9, CHR 0x8A, CHR 0xD9, CHR 0x84, CHR 0x20, CHR 0xD8, CHR 0xA7, CHR 0xD9,
     CHR 0x84, CHR 0xD8, CHR 0xB9, CHR 0xD9, CHR 0x82, CHR 0xD8, CHR 0xA7, CHR 0xD8,
     CHR 0xB1, CHR 0x20, CHR 0xD9, CHR 0x88, CHR 0xD9, CHR 0x85, CHR 0xD8, CHR 0xA7,
     CHR 0xD9, CHR 0x84, CHR 0xD9, CHR 0x83, CHR 0x20, CHR 0xD8, CHR 0xA7, CHR 0xD9,
     CHR 0x84, CHR 0xD8, CHR 0xB9, CHR 0xD9, CHR 0x82, CHR 0xD8, CHR 0xA7, CHR 0xD8,
     CHR 0xB1]"

text \<open>\<open>caption_license\<close>: the caption inside the license panel (UTF-8 bytes of the Arabic literal).\<close>

definition caption_license :: string where
  "caption_license =
    [CHR 0xD8, CHR 0xB1, CHR 0xD8, CHR 0xAE, CHR 0xD8, CHR 0xB5, CHR 0xD8, CHR 0xA9,
     CHR 0x20, CHR 0xD8, CHR 0xA7, CHR 0xD9, CHR 0x84, CHR 0xD8, CHR 0xA5, CHR 0xD8,
     CHR 0xB9, CHR 0xD9, CHR 0x84, CHR 0xD8, CHR 0xA7, CHR 0xD9, CHR 0x86, CHR 0x20,
     CHR 0xD9, CHR 0x85, CHR 0xD9, CHR 0x86, CHR 0x20, CHR 0xD9, CHR 0x87, CHR 0xD9,
     CHR 0x8A, CHR 0xD8, CHR 0xA6, CHR 0xD8, CHR 0xA9, CHR 0x20, CHR 0xD8, CHR 0xA7,
     CHR 0xD9, CHR 0x84, CHR 0xD8, CHR 0xB9, CHR 0xD9, CHR 0x82, CHR 0xD8, CHR 0xA7,
     CHR 0xD8, CHR 0xB1]"

text \<open>\<open>title_incomplete\<close>: the title of the incomplete-data card (UTF-8 bytes of the Arabic literal).\<close>

definition title_incomplete :: string where
  "title_incomplete =
    [CHR 0xD8, CHR 0xA8, CHR 0xD9, CHR 0x8A, CHR 0xD8, CHR 0xA7, CHR 0xD9, CHR 0x86,
     CHR 0xD8, CHR 0xA7, CHR 0xD8, CHR 0xAA, CHR 0x20, CHR 0xD8, CHR 0xBA, CHR 0xD9,
     CHR 0x8A, CHR 0xD8, CHR 0xB1, CHR 0x20, CHR 0xD9, CHR 0x85, CHR 0xD9, CHR 0x83,
     CHR 0xD8, CHR 0xAA, CHR 0xD9, CHR 0x85, CHR 0xD9, CHR 0x84, CHR 0xD8, CHR 0xA9]"
subsection \<open>The 2D canvas\<close>

text \<open>
  An image element is identified with its \<open>src\<close>: a URL (a data URI, or the path of
  the static logo), or the data URL of a canvas, which stands for the canvas's size and
  everything drawn on it. A canvas is its size, the state of its 2D context and the
  drawing operations performed so far, oldest first; every operation records the
  context state it was drawn with.
\<close>

datatype shape = RoundRect num num num num num

datatype image = ImageUrl string | ImageCanvas num num "draw_op list"
and draw_op =
    FillRect string num num num num
  | DrawImage image num num num num
  | FillPath string "shape list"
  | FillText string num num string string string string

record canvas =
  width :: num
  height :: num
  fillStyle :: string
  textAlign :: string
  textBaseline :: string
  font :: string
  path :: "shape list"
  drawn :: "draw_op list"

text \<open>\<open>document.createElement("canvas")\<close>: the default size and context state.\<close>

definition createElement_canvas :: canvas where
  "createElement_canvas =
     \<lparr>width = 300, height = 150, fillStyle = ''#000000'', textAlign = ''start'',
      textBaseline = ''alphabetic'', font = ''10px sans-serif'', path = [], drawn = []\<rparr>"

definition fillRect :: "canvas \<Rightarrow> num \<Rightarrow> num \<Rightarrow> num \<Rightarrow> num \<Rightarrow> canvas" where
  "fillRect ctx x y w h = ctx\<lparr>drawn := drawn ctx @ [FillRect (fillStyle ctx) x y w h]\<rparr>"

definition drawImage :: "canvas \<Rightarrow> image \<Rightarrow> num \<Rightarrow> num \<Rightarrow> num \<Rightarrow> num \<Rightarrow> canvas" where
  "drawImage ctx img x y w h = ctx\<lparr>drawn := drawn ctx @ [DrawImage img x y w h]\<rparr>"

definition fillText :: "canvas \<Rightarrow> string \<Rightarrow> num \<Rightarrow> num \<Rightarrow> canvas" where
  "fillText ctx txt x y =
     ctx\<lparr>drawn := drawn ctx @
       [FillText txt x y (font ctx) (fillStyle ctx) (textAlign ctx) (textBaseline ctx)]\<rparr>"

definition beginPath :: "canvas \<Rightarrow> canvas" where
  "beginPath ctx = ctx\<lparr>path := []\<rparr>"

definition roundRect :: "canvas \<Rightarrow> num \<Rightarrow> num \<Rightarrow> num \<Rightarrow> num \<Rightarrow> num \<Rightarrow> canvas" where
  "roundRect ctx x y w h r = ctx\<lparr>path := path ctx @ [RoundRect x y w h r]\<rparr>"

definition fill :: "canvas \<Rightarrow> canvas" where
  "fill ctx = ctx\<lparr>drawn := drawn ctx @ [FillPath (fillStyle ctx) (path ctx)]\<rparr>"

text \<open>\<open>canvas.toDataURL()\<close>, as the source of an image element.\<close>

definition toDataURL :: "canvas \<Rightarrow> image" where
  "toDataURL c = ImageCanvas (width c) (height c) (drawn c)"

subsection \<open>The QR library and the browser\<close>

text \<open>
  The options object handed to \<open>QRCode.toDataURL\<close>. A key the caller leaves out is
  \<open>None\<close>; the library then applies its own default.
\<close>

datatype ec_level = Low | Medium | Quartile | High

record qr_options =
  opt_width :: num
  opt_margin :: nat
  color_dark :: string
  color_light :: string
  errorCorrectionLevel :: "ec_level option"

text \<open>
  Everything outside the program: the QR library (an error or a data URL), whether an
  image element fires \<open>onload\<close> (True) or \<open>onerror\<close> (False) for a given source,
  whether \<open>getContext("2d")\<close> returns a context, the page size jsPDF reports, and
  the clock.
\<close>

record env =
  QRCode_toDataURL :: "string \<Rightarrow> qr_options \<Rightarrow> error + string"
  loads :: "image \<Rightarrow> bool"
  getContext :: bool
  pageSize :: "num \<times> num"
  getTime :: nat

text \<open>The level of the symbol the library draws, given the library's default.\<close>

definition symbol_level :: "ec_level \<Rightarrow> qr_options \<Rightarrow> ec_level" where
  "symbol_level library_default opts =
     (case errorCorrectionLevel opts of None \<Rightarrow> library_default | Some l \<Rightarrow> l)"

section \<open>\<open>createQRCodeImage\<close>: QR symbol and logo badge\<close>

text \<open>The options literal of the call in \<open>createQRCodeImage\<close>.\<close>

definition toDataURL_options :: "num \<Rightarrow> qr_options" where
  "toDataURL_options sz =
     \<lparr>opt_width = sz, opt_margin = 1, color_dark = ''#000000'',
      color_light = ''#FFFFFF'', errorCorrectionLevel = None\<rparr>"

text \<open>
  The block the source repeats three times: re-decode the canvas into a new image,
  resolve on load, reject on error.
\<close>

definition finalImg :: "env \<Rightarrow> canvas \<Rightarrow> error + image" where
  "finalImg env canvas =
     (if loads env (toDataURL canvas) then Inr (toDataURL canvas)
      else Inl (Error ''Failed to create QR code image''))"

definition createQRCodeImage :: "env \<Rightarrow> string \<Rightarrow> num \<Rightarrow> bool \<Rightarrow> error + image" where
  "createQRCodeImage env value sz showLogo =
     (case QRCode_toDataURL env value (toDataURL_options sz) of
        Inl err \<Rightarrow> Inl err
      | Inr url \<Rightarrow>
          let qrImg = ImageUrl url in
          if \<not> loads env qrImg then Inl (Error ''Failed to load QR code'')
          else
            let canvas = createElement_canvas\<lparr>width := sz, height := sz\<rparr>;
                ctx = drawImage canvas qrImg 0 0 sz sz
            in
            if showLogo then
              let logoContainerSize = sz / 5;
                  centerX = sz / 2;
                  centerY = sz / 2;
                  borderRadius = logoContainerSize * 0.2;
                  ctx = ctx\<lparr>fillStyle := ''#FFFFFF''\<rparr>;
                  ctx = beginPath ctx;
                  ctx = roundRect ctx (centerX - logoContainerSize / 2)
                          (centerY - logoContainerSize / 2)
                          logoContainerSize logoContainerSize borderRadius;
                  ctx = fill ctx;
                  padding = logoContainerSize * 0.08;
                  logoAreaSize = logoContainerSize - padding * 2;
                  logoImg = ImageUrl ''/logo/logo.png''
              in
              if loads env logoImg then
                let logoX = centerX - logoAreaSize / 2;
                    logoY = centerY - logoAreaSize / 2;
                    ctx = drawImage ctx logoImg logoX logoY logoAreaSize logoAreaSize
                in finalImg env ctx
              else finalImg env ctx
            else finalImg env ctx)"

text \<open>The props of the on-screen \<open>CustomQRCode\<close> preview (\<open>QRCodeSVG\<close>).\<close>

record svg_props =
  svg_value :: string
  svg_size :: num
  level :: ec_level
  includeMargin :: bool
  bgColor :: string
  fgColor :: string

definition CustomQRCode :: "string \<Rightarrow> num \<Rightarrow> svg_props" where
  "CustomQRCode value sz =
     \<lparr>svg_value = value, svg_size = sz, level = High, includeMargin = True,
      bgColor = ''#FFFFFF'', fgColor = ''#000000''\<rparr>"

section \<open>\<open>createQRCanvas\<close>: the canvas composer\<close>

definition setCanvasFont :: "canvas \<Rightarrow> nat \<Rightarrow> string \<Rightarrow> canvas" where
  "setCanvasFont ctx fontSize fontWeight =
     (let fontStack =
            join '', '' [''Tajawal'', ''Segoe UI'', ''Tahoma'', ''Arial'', ''sans-serif'']
      in ctx\<lparr>font := fontWeight @ '' '' @ string_of_nat fontSize @ ''px '' @ fontStack\<rparr>)"

text \<open>
  The component's \<open>qrData\<close> state is the second argument. The vertical cursor
  \<open>currentY\<close> is threaded through together with the context.
\<close>

definition createQRCanvas :: "env \<Rightarrow> QRData option \<Rightarrow> error + canvas" where
  "createQRCanvas env qrData_opt =
     (case qrData_opt of
        None \<Rightarrow> Inl (Error ''No QR data available'')
      | Some qrData \<Rightarrow>
          if \<not> getContext env then Inl (Error ''Could not get canvas context'')
          else
            let canvas = createElement_canvas;
                width = 1200;
                height = 1600;
                ctx = canvas\<lparr>width := width, height := height\<rparr>;
                ctx = ctx\<lparr>fillStyle := ''#ffffff''\<rparr>;
                ctx = fillRect ctx 0 0 width height;
                ctx = ctx\<lparr>fillStyle := ''#000000''\<rparr>;
                ctx = ctx\<lparr>textAlign := ''center''\<rparr>;
                ctx = ctx\<lparr>textBaseline := ''middle''\<rparr>;
                currentY = 100
            in
            await
              (if officeName qrData \<noteq> [] \<or> officeLogo qrData \<noteq> [] then
                 await
                   (if officeLogo qrData \<noteq> [] then
                      let logoImg = ImageUrl (officeLogo qrData) in
                      if loads env logoImg then
                        let logoSize = 120;
                            ctx = drawImage ctx logoImg (width / 2 - logoSize / 2) currentY
                                    logoSize logoSize;
                            currentY = currentY + (logoSize + 30)
                        in Inr (ctx, currentY)
                      else Inl (Error ''Failed to load office logo'')
                    else Inr (ctx, currentY))
                   (\<lambda>(ctx, currentY).
                      if officeName qrData \<noteq> [] then
                        let ctx = setCanvasFont ctx 32 ''bold'';
                            ctx = fillText ctx label_office (width / 2) currentY;
                            currentY = currentY + 40;
                            ctx = setCanvasFont ctx 28 ''normal'';
                            ctx = fillText ctx (officeName qrData) (width / 2) currentY;
                            currentY = currentY + 80
                        in Inr (ctx, currentY)
                      else Inr (ctx, currentY))
               else Inr (ctx, currentY))
              (\<lambda>(ctx, currentY).
                 let mainQRSize = of_int \<lfloor>width * 0.75\<rfloor> in
                 await (createQRCodeImage env (details qrData) mainQRSize True)
                   (\<lambda>mainQRImg.
                      let ctx = drawImage ctx mainQRImg (width / 2 - mainQRSize / 2) currentY
                                  mainQRSize mainQRSize;
                          currentY = currentY + (mainQRSize + 50);
                          ctx = setCanvasFont ctx 32 ''bold'';
                          ctx = fillText ctx caption_details (width / 2) currentY;
                          currentY = currentY + 80;
                          currentY = currentY + 30;
                          licenseSectionHeight = 200;
                          licenseSectionY = currentY;
                          ctx = ctx\<lparr>fillStyle := ''#f8f9fa''\<rparr>;
                          ctx = fillRect ctx 50 licenseSectionY (width - 100)
                                  licenseSectionHeight;
                          ctx = ctx\<lparr>fillStyle := ''#000000''\<rparr>;
                          licenseCenterY = licenseSectionY + licenseSectionHeight / 2
                      in
                      await (createQRCodeImage env (license qrData) 150 False)
                        (\<lambda>licenseQRImg.
                           let ctx = drawImage ctx licenseQRImg 150 (licenseCenterY - 75)
                                       150 150;
                               ctx = setCanvasFont ctx 28 ''bold'';
                               ctx = ctx\<lparr>textAlign := ''right''\<rparr>;
                               ctx = fillText ctx caption_license (width - 150)
                                       licenseCenterY
                           in Inr ctx))))"

section \<open>The exporters\<close>

datatype pdf_item = AddImage image string num num num num

record jsPDF =
  orientation :: string
  pdf_unit :: string
  format :: string
  pages :: "pdf_item list list"

text \<open>\<open>new jsPDF({...})\<close>: a document of one empty page.\<close>

definition new_jsPDF :: "string \<Rightarrow> string \<Rightarrow> string \<Rightarrow> jsPDF" where
  "new_jsPDF orient u fmt =
     \<lparr>orientation = orient, pdf_unit = u, format = fmt, pages = [[]]\<rparr>"

text \<open>\<open>pdf.addImage\<close> places the image on the current (last) page.\<close>

definition addImage ::
  "jsPDF \<Rightarrow> image \<Rightarrow> string \<Rightarrow> num \<Rightarrow> num \<Rightarrow> num \<Rightarrow> num \<Rightarrow> jsPDF" where
  "addImage pdf imgData fmt x y w h =
     pdf\<lparr>pages := butlast (pages pdf) @ [last (pages pdf) @ [AddImage imgData fmt x y w h]]\<rparr>"

text \<open>What an exporter does to the outside, in order.\<close>

datatype effect =
    Alert string
  | ConsoleError string error
  | SetIsDownloading string
  | LinkClick string image
  | PdfSave string jsPDF
  | HistoryBack
  | LocationHome

record ui_state =
  isDownloading :: string
  qrData :: "QRData option"
  isLoading :: bool

definition downloadAsImage :: "env \<Rightarrow> ui_state \<Rightarrow> ui_state \<times> effect list" where
  "downloadAsImage env st =
     (case qrData st of
        None \<Rightarrow> (st, [Alert msg_no_data])
      | Some _ \<Rightarrow>
          (case createQRCanvas env (qrData st) of
             Inr canvas \<Rightarrow>
               (st\<lparr>isDownloading := ''''\<rparr>,
                [SetIsDownloading ''image'',
                 LinkClick (filename_prefix @ string_of_nat (getTime env) @ ''.png'')
                   (toDataURL canvas),
                 SetIsDownloading ''''])
           | Inl err \<Rightarrow>
               (st\<lparr>isDownloading := ''''\<rparr>,
                [SetIsDownloading ''image'',
                 ConsoleError ''Error downloading image:'' err,
                 Alert msg_image_error,
                 SetIsDownloading ''''])))"

definition downloadAsPDF :: "env \<Rightarrow> ui_state \<Rightarrow> ui_state \<times> effect list" where
  "downloadAsPDF env st =
     (case qrData st of
        None \<Rightarrow> (st, [Alert msg_no_data])
      | Some _ \<Rightarrow>
          (case createQRCanvas env (qrData st) of
             Inr canvas \<Rightarrow>
               let imgData = toDataURL canvas;
                   pdf = new_jsPDF ''portrait'' ''mm'' ''a4'';
                   pdfWidth = fst (pageSize env);
                   pdfHeight = snd (pageSize env);
                   imgWidth = width canvas;
                   imgHeight = height canvas;
                   ratio = min (pdfWidth / imgWidth) (pdfHeight / imgHeight) * 0.95;
                   w = imgWidth * ratio;
                   h = imgHeight * ratio;
                   x = (pdfWidth - w) / 2;
                   y = (pdfHeight - h) / 2;
                   pdf = addImage pdf imgData ''PNG'' x y w h
               in
               (st\<lparr>isDownloading := ''''\<rparr>,
                [SetIsDownloading ''pdf'',
                 PdfSave (filename_prefix @ string_of_nat (getTime env) @ ''.pdf'') pdf,
                 SetIsDownloading ''''])
           | Inl err \<Rightarrow>
               (st\<lparr>isDownloading := ''''\<rparr>,
                [SetIsDownloading ''pdf'',
                 ConsoleError ''Error downloading PDF:'' err,
                 Alert msg_pdf_error,
                 SetIsDownloading ''''])))"

section \<open>\<open>QRContent\<close>: what is rendered, and which handlers it offers\<close>

datatype handler = DownloadAsImage | DownloadAsPDF | GoBack | GoHome

text \<open>A button: its \<open>onClick\<close> handler and its \<open>disabled\<close> flag.\<close>

datatype button = Button handler bool

datatype view =
    Spinner
  | IncompleteCard string "button list"
  | MainPage "button list"

text \<open>\<open>!qrData?.details || !qrData?.license\<close>, negated.\<close>

definition renderable :: "QRData option \<Rightarrow> bool" where
  "renderable d = (case d of None \<Rightarrow> False | Some r \<Rightarrow> details r \<noteq> [] \<and> license r \<noteq> [])"

definition QRContent :: "ui_state \<Rightarrow> view" where
  "QRContent st =
     (if isLoading st then Spinner
      else if \<not> renderable (qrData st) then IncompleteCard title_incomplete [Button GoBack False]
      else MainPage
             [Button DownloadAsImage (isDownloading st \<noteq> ''''),
              Button DownloadAsPDF (isDownloading st \<noteq> ''''),
              Button GoHome False])"

fun buttons :: "view \<Rightarrow> button list" where
  "buttons Spinner = []"
| "buttons (IncompleteCard t bs) = bs"
| "buttons (MainPage bs) = bs"

text \<open>
  A click reaches a handler only through an enabled button of the rendered view; the two
  download handlers are the only callers of \<open>createQRCanvas\<close>.
\<close>

definition click :: "env \<Rightarrow> handler \<Rightarrow> ui_state \<Rightarrow> ui_state \<times> effect list" where
  "click env h st =
     (if Button h False \<in> set (buttons (QRContent st)) then
        (case h of
           DownloadAsImage \<Rightarrow> downloadAsImage env st
         | DownloadAsPDF \<Rightarrow> downloadAsPDF env st
         | GoBack \<Rightarrow> (st, [HistoryBack])
         | GoHome \<Rightarrow> (st, [LocationHome]))
      else (st, []))"

section \<open>Layout of a composed canvas\<close>

text \<open>The position and size of a drawing operation, without its content or style.\<close>

datatype geometry =
    GRect num num num num
  | GImage num num num num
  | GPath "shape list"
  | GText num num

fun geometry_of :: "draw_op \<Rightarrow> geometry" where
  "geometry_of (FillRect s x y w h) = GRect x y w h"
| "geometry_of (DrawImage i x y w h) = GImage x y w h"
| "geometry_of (FillPath s p) = GPath p"
| "geometry_of (FillText t x y f s a b) = GText x y"

definition layout :: "canvas \<Rightarrow> num \<times> num \<times> geometry list" where
  "layout c = (width c, height c, map geometry_of (drawn c))"

section \<open>Sample inputs\<close>

definition sample_env :: env where
  "sample_env =
     \<lparr>QRCode_toDataURL =
        (\<lambda>v opts. if v = [] then Inl (Error ''No input text'')
                   else Inr (''data:image/png;qr,'' @ v)),
      loads = (\<lambda>img. True),
      getContext = True,
      pageSize = (210, 297),
      getTime = 1700000000000\<rparr>"

definition sample_record :: QRData where
  "sample_record =
     \<lparr>details = ''https://example.com/a'', license = ''https://example.com/b'',
      officeName = [], officeLogo = []\<rparr>"

definition sample_state :: ui_state where
  "sample_state = \<lparr>isDownloading = [], qrData = Some sample_record, isLoading = False\<rparr>"



text \<open>The static application logo is missing.\<close>

definition no_app_logo_env :: env where
  "no_app_logo_env = sample_env\<lparr>loads := (\<lambda>img. img \<noteq> ImageUrl ''/logo/logo.png'')\<rparr>"

text \<open>An encoder that rejects every payload.\<close>

definition failing_encoder_env :: env where
  "failing_encoder_env =
     sample_env\<lparr>QRCode_toDataURL :=
       (\<lambda>v opts. Inl (Error ''The amount of data is too big to be stored in a QR Code''))\<rparr>"

text \<open>A record with branding, and one without a details URL.\<close>

definition branded_record :: QRData where
  "branded_record =
     sample_record\<lparr>officeName := ''Office'', officeLogo := ''data:image/png;base64,AAAA''\<rparr>"

definition no_details_state :: ui_state where
  "no_details_state = sample_state\<lparr>qrData := Some (sample_record\<lparr>details := []\<rparr>)\<rparr>"

text \<open>
  An encoder that answers with the level it draws at, for a library whose default is
  Medium.
\<close>

definition level_probe_env :: env where
  "level_probe_env =
     sample_env\<lparr>QRCode_toDataURL :=
       (\<lambda>v opts. Inr (case symbol_level Medium opts of
                          Low \<Rightarrow> ''level:Low'' | Medium \<Rightarrow> ''level:Medium''
                        | Quartile \<Rightarrow> ''level:Quartile'' | High \<Rightarrow> ''level:High''))\<rparr>"

section \<open>Auxiliary facts\<close>

declare string_of_nat.simps [simp del]

lemma string_of_nat_32: "string_of_nat 32 = ''32''"
  by (simp add: string_of_nat.simps)

lemma string_of_nat_28: "string_of_nat 28 = ''28''"
  by (simp add: string_of_nat.simps)

lemma setCanvasFont_bold32:
  "setCanvasFont ctx 32 ''bold'' =
     ctx\<lparr>font := ''bold 32px Tajawal, Segoe UI, Tahoma, Arial, sans-serif''\<rparr>"
  by (simp add: setCanvasFont_def string_of_nat_32)

lemma setCanvasFont_normal28:
  "setCanvasFont ctx 28 ''normal'' =
     ctx\<lparr>font := ''normal 28px Tajawal, Segoe UI, Tahoma, Arial, sans-serif''\<rparr>"
  by (simp add: setCanvasFont_def string_of_nat_28)

lemma setCanvasFont_bold28:
  "setCanvasFont ctx 28 ''bold'' =
     ctx\<lparr>font := ''bold 28px Tajawal, Segoe UI, Tahoma, Arial, sans-serif''\<rparr>"
  by (simp add: setCanvasFont_def string_of_nat_28)

lemmas canvas_ops =
  fillRect_def drawImage_def fillText_def beginPath_def roundRect_def fill_def
  createElement_canvas_def toDataURL_def

text \<open>What \<open>createQRCodeImage\<close> has drawn when it resolves.\<close>

lemma createQRCodeImage_Inr:
  assumes "createQRCodeImage env v s b = Inr img"
  shows "\<exists>url. QRCode_toDataURL env v (toDataURL_options s) = Inr url \<and>
           loads env (ImageUrl url) \<and> loads env img \<and>
           img = ImageCanvas s s
                   (DrawImage (ImageUrl url) 0 0 s s #
                    (if b then
                       FillPath ''#FFFFFF''
                         [RoundRect (s / 2 - s / 5 / 2) (s / 2 - s / 5 / 2) (s / 5) (s / 5)
                            (s / 5 * 0.2)] #
                       (if loads env (ImageUrl ''/logo/logo.png'') then
                          [DrawImage (ImageUrl ''/logo/logo.png'')
                             (s / 2 - (s / 5 - s / 5 * 0.08 * 2) / 2)
                             (s / 2 - (s / 5 - s / 5 * 0.08 * 2) / 2)
                             (s / 5 - s / 5 * 0.08 * 2) (s / 5 - s / 5 * 0.08 * 2)]
                        else [])
                     else []))"
  using assms
  by (auto simp: createQRCodeImage_def finalImg_def canvas_ops Let_def
           split: sum.splits if_splits)

text \<open>An encoder error is the result of \<open>createQRCodeImage\<close>.\<close>

lemma createQRCodeImage_encoder_error:
  "QRCode_toDataURL env v (toDataURL_options s) = Inl e \<Longrightarrow>
   createQRCodeImage env v s b = Inl e"
  by (simp add: createQRCodeImage_def)

text \<open>Everything a resolved composition has drawn, and where.\<close>

lemma createQRCanvas_Inr:
  assumes "createQRCanvas env (Some r) = Inr c"
  shows "\<exists>mainQR licenseQR.
           getContext env \<and>
           (officeLogo r \<noteq> [] \<longrightarrow> loads env (ImageUrl (officeLogo r))) \<and>
           createQRCodeImage env (details r) 900 True = Inr mainQR \<and>
           createQRCodeImage env (license r) 150 False = Inr licenseQR \<and>
           width c = 1200 \<and> height c = 1600 \<and>
           drawn c =
             FillRect ''#ffffff'' 0 0 1200 1600 #
             (if officeLogo r \<noteq> [] then
                [DrawImage (ImageUrl (officeLogo r)) 540 100 120 120]
              else []) @
             (if officeName r \<noteq> [] then
                [FillText label_office 600 (if officeLogo r \<noteq> [] then 250 else 100)
                   ''bold 32px Tajawal, Segoe UI, Tahoma, Arial, sans-serif''
                   ''#000000'' ''center'' ''middle'',
                 FillText (officeName r) 600 (if officeLogo r \<noteq> [] then 290 else 140)
                   ''normal 28px Tajawal, Segoe UI, Tahoma, Arial, sans-serif''
                   ''#000000'' ''center'' ''middle'']
              else []) @
             (let y = 100 + (if officeLogo r \<noteq> [] then 150 else 0)
                          + (if officeName r \<noteq> [] then 120 else 0)
              in [DrawImage mainQR 150 y 900 900,
                  FillText caption_details 600 (y + 950)
                    ''bold 32px Tajawal, Segoe UI, Tahoma, Arial, sans-serif''
                    ''#000000'' ''center'' ''middle'',
                  FillRect ''#f8f9fa'' 50 (y + 1060) 1100 200,
                  DrawImage licenseQR 150 (y + 1085) 150 150,
                  FillText caption_license 1050 (y + 1160)
                    ''bold 28px Tajawal, Segoe UI, Tahoma, Arial, sans-serif''
                    ''#000000'' ''right'' ''middle''])"
  using assms
  unfolding createQRCanvas_def setCanvasFont_bold32 setCanvasFont_bold28 setCanvasFont_normal28
  by (auto simp: await_def canvas_ops Let_def split: sum.splits if_splits)

text \<open>Conversely, the composition resolves as soon as each of its steps does.\<close>

lemma createQRCanvas_resolves:
  assumes "getContext env"
    and "officeLogo r \<noteq> [] \<longrightarrow> loads env (ImageUrl (officeLogo r))"
    and "createQRCodeImage env (details r) 900 True = Inr mainQR"
    and "createQRCodeImage env (license r) 150 False = Inr licenseQR"
  shows "\<exists>c. createQRCanvas env (Some r) = Inr c"
  using assms
  by (simp add: createQRCanvas_def await_def Let_def)


lemma downloadAsImage_error:
  "qrData st = Some r \<Longrightarrow> createQRCanvas env (Some r) = Inl e \<Longrightarrow>
   downloadAsImage env st =
     (st\<lparr>isDownloading := ''''\<rparr>,
      [SetIsDownloading ''image'', ConsoleError ''Error downloading image:'' e,
       Alert msg_image_error, SetIsDownloading ''''])"
  by (simp add: downloadAsImage_def)

lemma downloadAsPDF_error:
  "qrData st = Some r \<Longrightarrow> createQRCanvas env (Some r) = Inl e \<Longrightarrow>
   downloadAsPDF env st =
     (st\<lparr>isDownloading := ''''\<rparr>,
      [SetIsDownloading ''pdf'', ConsoleError ''Error downloading PDF:'' e,
       Alert msg_pdf_error, SetIsDownloading ''''])"
  by (simp add: downloadAsPDF_def)


lemma createQRCanvas_details_error:
  "getContext env \<Longrightarrow> officeLogo r \<noteq> [] \<longrightarrow> loads env (ImageUrl (officeLogo r)) \<Longrightarrow>
   createQRCodeImage env (details r) 900 True = Inl e \<Longrightarrow>
   createQRCanvas env (Some r) = Inl e"
  by (simp add: createQRCanvas_def await_def Let_def)

lemma createQRCanvas_license_error:
  "getContext env \<Longrightarrow> officeLogo r \<noteq> [] \<longrightarrow> loads env (ImageUrl (officeLogo r)) \<Longrightarrow>
   createQRCodeImage env (details r) 900 True = Inr img \<Longrightarrow>
   createQRCodeImage env (license r) 150 False = Inl e \<Longrightarrow>
   createQRCanvas env (Some r) = Inl e"
  by (simp add: createQRCanvas_def await_def Let_def)

lemma sample_composes:
  "\<exists>c. createQRCanvas sample_env (Some sample_record) = Inr c"
  by (simp add: createQRCanvas_def createQRCodeImage_def finalImg_def await_def Let_def
        toDataURL_options_def sample_env_def sample_record_def)

lemma branded_composes:
  "\<exists>c. createQRCanvas sample_env (Some branded_record) = Inr c"
  by (simp add: createQRCanvas_def createQRCodeImage_def finalImg_def await_def Let_def
        toDataURL_options_def sample_env_def sample_record_def branded_record_def)

section \<open>The claims\<close>

subsection \<open>C1: an office logo that does not decode\<close>




subsection \<open>C2: the options of the export encoder\<close>

text \<open>
  C2: the export path encodes at error-correction level High, margin 1, dark on light.
  The options literal of \<open>createQRCodeImage\<close> sets the width, margin 1 and the two
  colours, and no error-correction level: the symbol is drawn at the library's default
  (Medium for the \<open>qrcode\<close> package), while the on-screen preview asks for High.
\<close>

theorem export_encoder_level_unset:
  "errorCorrectionLevel (toDataURL_options 900) = None \<and>
   symbol_level Medium (toDataURL_options 900) = Medium \<and>
   opt_margin (toDataURL_options 900) = 1 \<and>
   color_dark (toDataURL_options 900) = ''#000000'' \<and>
   color_light (toDataURL_options 900) = ''#FFFFFF'' \<and>
   createQRCodeImage level_probe_env ''https://example.com/a'' 900 False =
     Inr (ImageCanvas 900 900 [DrawImage (ImageUrl ''level:Medium'') 0 0 900 900]) \<and>
   level (CustomQRCode ''https://example.com/a'' 180) = High"
  by (simp add: toDataURL_options_def symbol_level_def CustomQRCode_def level_probe_env_def
        sample_env_def createQRCodeImage_def finalImg_def canvas_ops Let_def)

subsection \<open>C3: the fixed geometry of the composed canvas\<close>

text \<open>
  C3: every composed canvas is exactly 1200 by 1600; the details QR has side
  \<open>\<lfloor>0.75 \<times> 1200\<rfloor> = 900\<close> and is horizontally centred; the license panel is 200
  high with 50-unit insets on both sides and lies below the details caption; the license
  QR inside it is 150 by 150 and carries no logo badge (its image is the bare symbol).
\<close>

theorem composed_canvas_geometry:
  assumes "createQRCanvas env (Some r) = Inr c"
  shows "width c = 1200 \<and> height c = 1600 \<and>
         (\<exists>before y mainQR licenseUrl f1 f2.
            createQRCodeImage env (details r) (of_int \<lfloor>0.75 * 1200\<rfloor>) True = Inr mainQR \<and>
            QRCode_toDataURL env (license r) (toDataURL_options 150) = Inr licenseUrl \<and>
            drawn c = before @
              [DrawImage mainQR ((1200 - 900) / 2) y 900 900,
               FillText caption_details (1200 / 2) (y + 900 + 50) f1
                 ''#000000'' ''center'' ''middle'',
               FillRect ''#f8f9fa'' 50 (y + 900 + 50 + 110) (1200 - 2 * 50) 200,
               DrawImage (ImageCanvas 150 150 [DrawImage (ImageUrl licenseUrl) 0 0 150 150])
                 150 (y + 900 + 50 + 110 + 25) 150 150,
               FillText caption_license (1200 - 150) (y + 900 + 50 + 110 + 100) f2
                 ''#000000'' ''right'' ''middle''])"
proof -
  from createQRCanvas_Inr [OF assms] obtain mainQR licenseQR where
    m: "createQRCodeImage env (details r) 900 True = Inr mainQR" and
    l: "createQRCodeImage env (license r) 150 False = Inr licenseQR" and
    wh: "width c = 1200" "height c = 1600" and
    d: "drawn c =
          FillRect ''#ffffff'' 0 0 1200 1600 #
          (if officeLogo r \<noteq> [] then
             [DrawImage (ImageUrl (officeLogo r)) 540 100 120 120]
           else []) @
          (if officeName r \<noteq> [] then
             [FillText label_office 600 (if officeLogo r \<noteq> [] then 250 else 100)
                ''bold 32px Tajawal, Segoe UI, Tahoma, Arial, sans-serif''
                ''#000000'' ''center'' ''middle'',
              FillText (officeName r) 600 (if officeLogo r \<noteq> [] then 290 else 140)
                ''normal 28px Tajawal, Segoe UI, Tahoma, Arial, sans-serif''
                ''#000000'' ''center'' ''middle'']
           else []) @
          (let y = 100 + (if officeLogo r \<noteq> [] then 150 else 0)
                       + (if officeName r \<noteq> [] then 120 else 0)
           in [DrawImage mainQR 150 y 900 900,
               FillText caption_details 600 (y + 950)
                 ''bold 32px Tajawal, Segoe UI, Tahoma, Arial, sans-serif''
                 ''#000000'' ''center'' ''middle'',
               FillRect ''#f8f9fa'' 50 (y + 1060) 1100 200,
               DrawImage licenseQR 150 (y + 1085) 150 150,
               FillText caption_license 1050 (y + 1160)
                 ''bold 28px Tajawal, Segoe UI, Tahoma, Arial, sans-serif''
                 ''#000000'' ''right'' ''middle''])"
    by blast
  from createQRCodeImage_Inr [OF l] obtain licenseUrl where
    u: "QRCode_toDataURL env (license r) (toDataURL_options 150) = Inr licenseUrl" and
    li: "licenseQR = ImageCanvas 150 150 [DrawImage (ImageUrl licenseUrl) 0 0 150 150]"
    by auto
  define y :: rat where
    "y = 100 + (if officeLogo r \<noteq> [] then 150 else 0) + (if officeName r \<noteq> [] then 120 else 0)"
  define before where
    "before = FillRect ''#ffffff'' 0 0 1200 1600 #
          (if officeLogo r \<noteq> [] then
             [DrawImage (ImageUrl (officeLogo r)) 540 100 120 120]
           else []) @
          (if officeName r \<noteq> [] then
             [FillText label_office 600 (if officeLogo r \<noteq> [] then 250 else 100)
                ''bold 32px Tajawal, Segoe UI, Tahoma, Arial, sans-serif''
                ''#000000'' ''center'' ''middle'',
              FillText (officeName r) 600 (if officeLogo r \<noteq> [] then 290 else 140)
                ''normal 28px Tajawal, Segoe UI, Tahoma, Arial, sans-serif''
                ''#000000'' ''center'' ''middle'']
           else [])"
  have d': "drawn c = before @
              [DrawImage mainQR ((1200 - 900) / 2) y 900 900,
               FillText caption_details (1200 / 2) (y + 900 + 50)
                 ''bold 32px Tajawal, Segoe UI, Tahoma, Arial, sans-serif''
                 ''#000000'' ''center'' ''middle'',
               FillRect ''#f8f9fa'' 50 (y + 900 + 50 + 110) (1200 - 2 * 50) 200,
               DrawImage (ImageCanvas 150 150 [DrawImage (ImageUrl licenseUrl) 0 0 150 150])
                 150 (y + 900 + 50 + 110 + 25) 150 150,
               FillText caption_license (1200 - 150) (y + 900 + 50 + 110 + 100)
                 ''bold 28px Tajawal, Segoe UI, Tahoma, Arial, sans-serif''
                 ''#000000'' ''right'' ''middle'']"
    unfolding d before_def y_def li by (simp add: Let_def)
  have m': "createQRCodeImage env (details r) (of_int \<lfloor>0.75 * 1200\<rfloor>) True = Inr mainQR"
    using m by simp
  show ?thesis
    using wh m' u d' by blast
qed

theorem composed_canvas_geometry_witness:
  "\<exists>c. createQRCanvas sample_env (Some sample_record) = Inr c \<and>
       width c = 1200 \<and> height c = 1600"
proof -
  from sample_composes obtain c where
    c: "createQRCanvas sample_env (Some sample_record) = Inr c" ..
  from composed_canvas_geometry [OF c] have "width c = 1200 \<and> height c = 1600"
    by blast
  with c show ?thesis by blast
qed

subsection \<open>C4: the logo badge\<close>

text \<open>
  C4: on a symbol of edge \<open>S\<close> composed with the logo, the badge is a centred square of
  side \<open>S/5\<close>, filled white as a rounded rectangle of corner radius \<open>0.2 \<times> side\<close>, and
  the logo is drawn centred in a square of side \<open>side - 2 \<times> (0.08 \<times> side)\<close>. The image
  is the result as soon as its re-decoding succeeds.
\<close>

theorem logo_badge_layout:
  assumes "QRCode_toDataURL env v (toDataURL_options S) = Inr url"
    and "loads env (ImageUrl url)"
    and "loads env (ImageUrl ''/logo/logo.png'')"
  shows "let side = S / 5;
             inner = side - 2 * (0.08 * side);
             final = ImageCanvas S S
               [DrawImage (ImageUrl url) 0 0 S S,
                FillPath ''#FFFFFF''
                  [RoundRect ((S - side) / 2) ((S - side) / 2) side side (0.2 * side)],
                DrawImage (ImageUrl ''/logo/logo.png'')
                  ((S - inner) / 2) ((S - inner) / 2) inner inner]
         in createQRCodeImage env v S True =
              (if loads env final then Inr final
               else Inl (Error ''Failed to create QR code image''))"
  using assms
  by (simp add: createQRCodeImage_def finalImg_def canvas_ops Let_def diff_divide_distrib)

theorem logo_badge_layout_witness:
  "createQRCodeImage sample_env ''https://example.com/a'' 900 True =
     Inr (ImageCanvas 900 900
       [DrawImage (ImageUrl ''data:image/png;qr,https://example.com/a'') 0 0 900 900,
        FillPath ''#FFFFFF'' [RoundRect 360 360 180 180 36],
        DrawImage (ImageUrl ''/logo/logo.png'') 374.4 374.4 151.2 151.2])"
proof -
  have 1: "QRCode_toDataURL sample_env ''https://example.com/a'' (toDataURL_options 900) =
             Inr ''data:image/png;qr,https://example.com/a''"
    by (simp add: sample_env_def)
  have 2: "loads sample_env (ImageUrl ''data:image/png;qr,https://example.com/a'')"
    by (simp add: sample_env_def)
  have 3: "loads sample_env (ImageUrl ''/logo/logo.png'')"
    by (simp add: sample_env_def)
  have 4: "\<And>i. loads sample_env i"
    by (simp add: sample_env_def)
  show ?thesis
    using logo_badge_layout [OF 1 2 3]
    by (simp add: Let_def 4)
qed

subsection \<open>C5: placing the bitmap on the page\<close>

text \<open>
  C5: for a composed bitmap of width \<open>w\<close> and height \<open>h\<close> and a page of
  \<open>pageWidth \<times> pageHeight\<close>, the document exporter saves a document of a single page
  holding the bitmap once, scaled by \<open>min (pageWidth/w) (pageHeight/h) \<times> 0.95\<close> and
  centred: drawn at \<open>x = (pageWidth - w \<times> ratio)/2\<close>, \<open>y = (pageHeight - h \<times> ratio)/2\<close>
  with size \<open>(w \<times> ratio) \<times> (h \<times> ratio)\<close>.
\<close>

theorem pdf_image_placement:
  assumes "createQRCanvas env (qrData st) = Inr c"
  shows "let pageWidth = fst (pageSize env);
             pageHeight = snd (pageSize env);
             w = width c;
             h = height c;
             ratio = min (pageWidth / w) (pageHeight / h) * 0.95
         in downloadAsPDF env st =
              (st\<lparr>isDownloading := ''''\<rparr>,
               [SetIsDownloading ''pdf'',
                PdfSave (filename_prefix @ string_of_nat (getTime env) @ ''.pdf'')
                  \<lparr>orientation = ''portrait'', pdf_unit = ''mm'', format = ''a4'',
                   pages =
                     [[AddImage (toDataURL c) ''PNG''
                         ((pageWidth - w * ratio) / 2) ((pageHeight - h * ratio) / 2)
                         (w * ratio) (h * ratio)]]\<rparr>,
                SetIsDownloading ''''])"
proof -
  from assms obtain r where r: "qrData st = Some r"
    by (cases "qrData st") (simp_all add: createQRCanvas_def)
  show ?thesis
    using assms r
    by (simp add: downloadAsPDF_def new_jsPDF_def addImage_def Let_def)
qed

theorem pdf_image_placement_witness:
  "\<exists>c. createQRCanvas sample_env (qrData sample_state) = Inr c \<and>
       width c = 1200 \<and> height c = 1600 \<and>
       snd (downloadAsPDF sample_env sample_state) =
         [SetIsDownloading ''pdf'',
          PdfSave (filename_prefix @ string_of_nat 1700000000000 @ ''.pdf'')
            \<lparr>orientation = ''portrait'', pdf_unit = ''mm'', format = ''a4'',
             pages = [[AddImage (toDataURL c) ''PNG'' 5.25 15.5 199.5 266]]\<rparr>,
          SetIsDownloading '''']"
proof -
  from sample_composes obtain c where
    c: "createQRCanvas sample_env (Some sample_record) = Inr c" ..
  then have c': "createQRCanvas sample_env (qrData sample_state) = Inr c"
    by (simp add: sample_state_def)
  from createQRCanvas_Inr [OF c] have wh: "width c = 1200" "height c = 1600"
    by blast+
  have p: "pageSize sample_env = (210, 297)" "getTime sample_env = 1700000000000"
    by (simp_all add: sample_env_def)
  show ?thesis
    using pdf_image_placement [OF c'] c' wh
    by (simp add: Let_def p)
qed

subsection \<open>C6: an encoding failure reaches the user\<close>

text \<open>
  C6: when the encoder fails on the details payload or on the license payload,
  composition rejects (no canvas is returned); each exporter catches the error, logs it,
  alerts the user and leaves its busy flag reset. The error that comes out is the
  encoder's own whenever no earlier step of the composition failed.
\<close>

theorem encoding_failure_surfaces:
  assumes "qrData st = Some r"
    and "QRCode_toDataURL env (details r) (toDataURL_options 900) = Inl e \<or>
         QRCode_toDataURL env (license r) (toDataURL_options 150) = Inl e"
  shows "\<exists>e'. createQRCanvas env (Some r) = Inl e' \<and>
           downloadAsImage env st =
             (st\<lparr>isDownloading := ''''\<rparr>,
              [SetIsDownloading ''image'', ConsoleError ''Error downloading image:'' e',
               Alert msg_image_error, SetIsDownloading '''']) \<and>
           downloadAsPDF env st =
             (st\<lparr>isDownloading := ''''\<rparr>,
              [SetIsDownloading ''pdf'', ConsoleError ''Error downloading PDF:'' e',
               Alert msg_pdf_error, SetIsDownloading '''']) \<and>
           (getContext env \<and> (officeLogo r = [] \<or> loads env (ImageUrl (officeLogo r))) \<and>
            (QRCode_toDataURL env (details r) (toDataURL_options 900) = Inl e \<or>
             (\<exists>img. createQRCodeImage env (details r) 900 True = Inr img))
            \<longrightarrow> e' = e)"
proof -
  have no_canvas: "createQRCanvas env (Some r) \<noteq> Inr c" for c
  proof
    assume "createQRCanvas env (Some r) = Inr c"
    from createQRCanvas_Inr [OF this] obtain mainQR licenseQR where
      "createQRCodeImage env (details r) 900 True = Inr mainQR"
      "createQRCodeImage env (license r) 150 False = Inr licenseQR"
      by blast
    with assms(2) show False
      using createQRCodeImage_encoder_error [of env "details r" 900 e True]
        createQRCodeImage_encoder_error [of env "license r" 150 e False]
      by auto
  qed
  then obtain e' where e': "createQRCanvas env (Some r) = Inl e'"
    by (cases "createQRCanvas env (Some r)") auto
  have same: "e' = e"
    if ok: "getContext env" "officeLogo r = [] \<or> loads env (ImageUrl (officeLogo r))"
      and first: "QRCode_toDataURL env (details r) (toDataURL_options 900) = Inl e \<or>
                  (\<exists>img. createQRCodeImage env (details r) 900 True = Inr img)"
  proof -
    from ok(2) have logo: "officeLogo r \<noteq> [] \<longrightarrow> loads env (ImageUrl (officeLogo r))"
      by blast
    show ?thesis
    proof (cases "QRCode_toDataURL env (details r) (toDataURL_options 900) = Inl e")
      case True
      then have "createQRCodeImage env (details r) 900 True = Inl e"
        by (rule createQRCodeImage_encoder_error)
      from createQRCanvas_details_error [OF ok(1) logo this] e' show ?thesis
        by simp
    next
      case False
      with first obtain img where img: "createQRCodeImage env (details r) 900 True = Inr img"
        by blast
      from False assms(2)
      have "QRCode_toDataURL env (license r) (toDataURL_options 150) = Inl e"
        by blast
      then have "createQRCodeImage env (license r) 150 False = Inl e"
        by (rule createQRCodeImage_encoder_error)
      from createQRCanvas_license_error [OF ok(1) logo img this] e' show ?thesis
        by simp
    qed
  qed
  show ?thesis
    using e' downloadAsImage_error [OF assms(1) e'] downloadAsPDF_error [OF assms(1) e'] same
    by blast
qed

theorem encoding_failure_surfaces_witness:
  "createQRCanvas failing_encoder_env (Some sample_record) =
     Inl (Error ''The amount of data is too big to be stored in a QR Code'') \<and>
   downloadAsImage failing_encoder_env sample_state =
     (sample_state,
      [SetIsDownloading ''image'',
       ConsoleError ''Error downloading image:''
         (Error ''The amount of data is too big to be stored in a QR Code''),
       Alert msg_image_error, SetIsDownloading '''']) \<and>
   downloadAsPDF failing_encoder_env sample_state =
     (sample_state,
      [SetIsDownloading ''pdf'',
       ConsoleError ''Error downloading PDF:''
         (Error ''The amount of data is too big to be stored in a QR Code''),
       Alert msg_pdf_error, SetIsDownloading ''''])"
proof -
  have 1: "qrData sample_state = Some sample_record"
    by (simp add: sample_state_def)
  have 2: "QRCode_toDataURL failing_encoder_env (details sample_record) (toDataURL_options 900) =
             Inl (Error ''The amount of data is too big to be stored in a QR Code'') \<or>
           QRCode_toDataURL failing_encoder_env (license sample_record) (toDataURL_options 150) =
             Inl (Error ''The amount of data is too big to be stored in a QR Code'')"
    by (simp add: failing_encoder_env_def)
  have 3: "getContext failing_encoder_env" "officeLogo sample_record = []"
    "QRCode_toDataURL failing_encoder_env (details sample_record) (toDataURL_options 900) =
       Inl (Error ''The amount of data is too big to be stored in a QR Code'')"
    by (simp_all add: failing_encoder_env_def sample_env_def sample_record_def)
  have 4: "sample_state\<lparr>isDownloading := ''''\<rparr> = sample_state"
    by (simp add: sample_state_def)
  from encoding_failure_surfaces [OF 1 2] 3 4 show ?thesis
    by auto
qed

subsection \<open>C7: the application logo fails to load\<close>

text \<open>
  C7: if the static application logo does not load, the white rounded badge is still in
  the output image, no logo is drawn on it, and \<open>createQRCodeImage\<close> resolves with
  that image (its re-decoding from the canvas succeeding) instead of rejecting.
\<close>

theorem app_logo_failure_keeps_badge:
  assumes "QRCode_toDataURL env v (toDataURL_options S) = Inr url"
    and "loads env (ImageUrl url)"
    and "\<not> loads env (ImageUrl ''/logo/logo.png'')"
    and "loads env
           (ImageCanvas S S
              [DrawImage (ImageUrl url) 0 0 S S,
               FillPath ''#FFFFFF''
                 [RoundRect ((S - S / 5) / 2) ((S - S / 5) / 2) (S / 5) (S / 5)
                    (0.2 * (S / 5))]])"
  shows "createQRCodeImage env v S True =
           Inr (ImageCanvas S S
                  [DrawImage (ImageUrl url) 0 0 S S,
                   FillPath ''#FFFFFF''
                     [RoundRect ((S - S / 5) / 2) ((S - S / 5) / 2) (S / 5) (S / 5)
                        (0.2 * (S / 5))]])"
  using assms
  by (simp add: createQRCodeImage_def finalImg_def canvas_ops Let_def diff_divide_distrib)

theorem app_logo_failure_keeps_badge_witness:
  "loads no_app_logo_env (ImageUrl ''/logo/logo.png'') = False \<and>
   createQRCodeImage no_app_logo_env ''https://example.com/a'' 900 True =
     Inr (ImageCanvas 900 900
            [DrawImage (ImageUrl ''data:image/png;qr,https://example.com/a'') 0 0 900 900,
             FillPath ''#FFFFFF'' [RoundRect 360 360 180 180 36]])"
proof -
  have 1: "QRCode_toDataURL no_app_logo_env ''https://example.com/a'' (toDataURL_options 900) =
             Inr ''data:image/png;qr,https://example.com/a''"
    by (simp add: no_app_logo_env_def sample_env_def)
  have 2: "loads no_app_logo_env (ImageUrl ''data:image/png;qr,https://example.com/a'')"
    by (simp add: no_app_logo_env_def sample_env_def)
  have 3: "\<not> loads no_app_logo_env (ImageUrl ''/logo/logo.png'')"
    by (simp add: no_app_logo_env_def sample_env_def)
  have 4: "loads no_app_logo_env
             (ImageCanvas 900 900
                [DrawImage (ImageUrl ''data:image/png;qr,https://example.com/a'') 0 0 900 900,
                 FillPath ''#FFFFFF''
                   [RoundRect ((900 - 900 / 5) / 2) ((900 - 900 / 5) / 2) (900 / 5) (900 / 5)
                      (0.2 * (900 / 5))]])"
    by (simp add: no_app_logo_env_def sample_env_def)
  show ?thesis
    using app_logo_failure_keeps_badge [OF 1 2 3 4] 3
    by simp
qed

subsection \<open>C8: a record without both URLs is not composed\<close>

text \<open>
  C8: when the record is missing, or its details URL or its license URL is empty, the
  renderability check is false; once loading has finished the page shows the
  incomplete-data card, whose only button goes back; neither download handler can be
  reached, so composition is not invoked and nothing is thrown at the user.
\<close>

theorem incomplete_record_not_composed:
  assumes "qrData st = None \<or>
           (\<exists>r. qrData st = Some r \<and> (details r = [] \<or> license r = []))"
  shows "\<not> renderable (qrData st) \<and>
         QRContent st =
           (if isLoading st then Spinner
            else IncompleteCard title_incomplete [Button GoBack False]) \<and>
         click env DownloadAsImage st = (st, []) \<and>
         click env DownloadAsPDF st = (st, []) \<and>
         click env GoHome st = (st, []) \<and>
         click env GoBack st = (st, if isLoading st then [] else [HistoryBack])"
proof -
  from assms have nr: "\<not> renderable (qrData st)"
    by (auto simp: renderable_def)
  then show ?thesis
    by (simp add: QRContent_def click_def)
qed

theorem incomplete_record_not_composed_witness:
  "\<not> renderable (qrData no_details_state) \<and>
   QRContent no_details_state = IncompleteCard title_incomplete [Button GoBack False] \<and>
   click sample_env DownloadAsImage no_details_state = (no_details_state, []) \<and>
   click sample_env DownloadAsPDF no_details_state = (no_details_state, [])"
proof -
  have 1: "qrData no_details_state = None \<or>
           (\<exists>r. qrData no_details_state = Some r \<and> (details r = [] \<or> license r = []))"
    by (simp add: no_details_state_def sample_state_def)
  have 2: "\<not> isLoading no_details_state"
    by (simp add: no_details_state_def sample_state_def)
  from incomplete_record_not_composed [OF 1, of sample_env] 2 show ?thesis
    by simp
qed

subsection \<open>C9: the layout depends on the two presence flags only\<close>

text \<open>
  C9: the dimensions of a composed canvas and the position and size of everything drawn
  on it are determined by whether the office name and the office logo are present. Two
  compositions that resolve, of records that agree on the two flags (in particular two
  compositions of the same record), have the same layout.
\<close>

theorem layout_determined_by_flags:
  assumes "createQRCanvas env1 (Some r1) = Inr c1"
    and "createQRCanvas env2 (Some r2) = Inr c2"
    and "(officeName r1 = []) = (officeName r2 = [])"
    and "(officeLogo r1 = []) = (officeLogo r2 = [])"
  shows "layout c1 = layout c2"
proof -
  have shape: "layout c =
      (1200, 1600,
       GRect 0 0 1200 1600 #
       (if officeLogo r \<noteq> [] then [GImage 540 100 120 120] else []) @
       (if officeName r \<noteq> [] then
          [GText 600 (if officeLogo r \<noteq> [] then 250 else 100),
           GText 600 (if officeLogo r \<noteq> [] then 290 else 140)]
        else []) @
       (let y = 100 + (if officeLogo r \<noteq> [] then 150 else 0)
                    + (if officeName r \<noteq> [] then 120 else 0)
        in [GImage 150 y 900 900, GText 600 (y + 950), GRect 50 (y + 1060) 1100 200,
            GImage 150 (y + 1085) 150 150, GText 1050 (y + 1160)]))"
    if "createQRCanvas env (Some r) = Inr c" for env r c
    using createQRCanvas_Inr [OF that]
    by (auto simp: layout_def Let_def)
  show ?thesis
    unfolding shape [OF assms(1)] shape [OF assms(2)]
    using assms(3,4) by simp
qed

theorem layout_determined_by_flags_witness:
  "\<exists>c1 c2. createQRCanvas sample_env (Some sample_record) = Inr c1 \<and>
           createQRCanvas no_app_logo_env (Some (sample_record\<lparr>details := ''https://example.org/x''\<rparr>)) = Inr c2 \<and>
           layout c1 = layout c2"
proof -
  from sample_composes obtain c1 where
    1: "createQRCanvas sample_env (Some sample_record) = Inr c1" ..
  have "\<exists>c. createQRCanvas no_app_logo_env
              (Some (sample_record\<lparr>details := ''https://example.org/x''\<rparr>)) = Inr c"
    by (simp add: createQRCanvas_def createQRCodeImage_def finalImg_def await_def Let_def
          toDataURL_options_def no_app_logo_env_def sample_env_def sample_record_def
          canvas_ops)
  then obtain c2 where
    2: "createQRCanvas no_app_logo_env
          (Some (sample_record\<lparr>details := ''https://example.org/x''\<rparr>)) = Inr c2" ..
  have 3: "(officeName sample_record = []) =
           (officeName (sample_record\<lparr>details := ''https://example.org/x''\<rparr>) = [])"
    by simp
  have 4: "(officeLogo sample_record = []) =
           (officeLogo (sample_record\<lparr>details := ''https://example.org/x''\<rparr>) = [])"
    by simp
  from layout_determined_by_flags [OF 1 2 3 4] 1 2 show ?thesis
    by blast
qed

subsection \<open>C10: the office branding block\<close>

text \<open>
  C10: right after the background, the office logo is drawn (a centred 120-unit square
  at the top margin) exactly when \<open>officeLogo\<close> is non-empty, and the caption label
  and the office name 40 units below it exactly when \<open>officeName\<close> is non-empty; the
  details QR follows at vertical offset 100 with no branding, 250 with the logo only,
  220 with the name only and 370 with both.
\<close>

theorem office_branding_block:
  assumes "createQRCanvas env (Some r) = Inr c"
  shows "\<exists>mainQR rest f1 f2.
           createQRCodeImage env (details r) 900 True = Inr mainQR \<and>
           drawn c =
             FillRect ''#ffffff'' 0 0 1200 1600 #
             (if officeLogo r \<noteq> [] then
                [DrawImage (ImageUrl (officeLogo r)) ((1200 - 120) / 2) 100 120 120]
              else []) @
             (if officeName r \<noteq> [] then
                [FillText label_office 600
                   (if officeLogo r \<noteq> [] then 100 + (120 + 30) else 100)
                   f1 ''#000000'' ''center'' ''middle'',
                 FillText (officeName r) 600
                   ((if officeLogo r \<noteq> [] then 100 + (120 + 30) else 100) + 40)
                   f2 ''#000000'' ''center'' ''middle'']
              else []) @
             DrawImage mainQR 150
               (if officeLogo r = [] then (if officeName r = [] then 100 else 220)
                else (if officeName r = [] then 250 else 370))
               900 900 # rest"
proof -
  from createQRCanvas_Inr [OF assms] obtain mainQR licenseQR where
    m: "createQRCodeImage env (details r) 900 True = Inr mainQR" and
    d: "drawn c =
          FillRect ''#ffffff'' 0 0 1200 1600 #
          (if officeLogo r \<noteq> [] then
             [DrawImage (ImageUrl (officeLogo r)) 540 100 120 120]
           else []) @
          (if officeName r \<noteq> [] then
             [FillText label_office 600 (if officeLogo r \<noteq> [] then 250 else 100)
                ''bold 32px Tajawal, Segoe UI, Tahoma, Arial, sans-serif''
                ''#000000'' ''center'' ''middle'',
              FillText (officeName r) 600 (if officeLogo r \<noteq> [] then 290 else 140)
                ''normal 28px Tajawal, Segoe UI, Tahoma, Arial, sans-serif''
                ''#000000'' ''center'' ''middle'']
           else []) @
          (let y = 100 + (if officeLogo r \<noteq> [] then 150 else 0)
                       + (if officeName r \<noteq> [] then 120 else 0)
           in [DrawImage mainQR 150 y 900 900,
               FillText caption_details 600 (y + 950)
                 ''bold 32px Tajawal, Segoe UI, Tahoma, Arial, sans-serif''
                 ''#000000'' ''center'' ''middle'',
               FillRect ''#f8f9fa'' 50 (y + 1060) 1100 200,
               DrawImage licenseQR 150 (y + 1085) 150 150,
               FillText caption_license 1050 (y + 1160)
                 ''bold 28px Tajawal, Segoe UI, Tahoma, Arial, sans-serif''
                 ''#000000'' ''right'' ''middle''])"
    by blast
  show ?thesis
    apply (rule exI [of _ mainQR])
    apply (rule exI [of _ "tl (drop (1 + (if officeLogo r \<noteq> [] then 1 else 0)
                                      + (if officeName r \<noteq> [] then 2 else 0)) (drawn c))"])
    apply (rule exI [of _ "''bold 32px Tajawal, Segoe UI, Tahoma, Arial, sans-serif''"])
    apply (rule exI [of _ "''normal 28px Tajawal, Segoe UI, Tahoma, Arial, sans-serif''"])
    using m d
    apply (simp add: Let_def)
    done
qed

theorem office_branding_block_witness:
  "\<exists>c mainQR rest f1 f2.
     createQRCanvas sample_env (Some branded_record) = Inr c \<and>
     drawn c =
       [FillRect ''#ffffff'' 0 0 1200 1600,
        DrawImage (ImageUrl ''data:image/png;base64,AAAA'') 540 100 120 120,
        FillText label_office 600 250 f1 ''#000000'' ''center'' ''middle'',
        FillText ''Office'' 600 290 f2 ''#000000'' ''center'' ''middle'',
        DrawImage mainQR 150 370 900 900] @ rest"
proof -
  from branded_composes obtain c where
    c: "createQRCanvas sample_env (Some branded_record) = Inr c" ..
  have 1: "officeLogo branded_record = ''data:image/png;base64,AAAA''"
    "officeName branded_record = ''Office''"
    by (simp_all add: branded_record_def sample_record_def)
  from office_branding_block [OF c] c show ?thesis
    unfolding 1 by auto
qed

end
